theory Spec2Isabelle
  imports Main "HOL-Library.Sublist"
begin

section \<open>The menu, inventory and order tools of \<^verbatim>\<open>upswing_hotel_agent.py\<close>\<close>

text \<open>
  The two tool functions \<^verbatim>\<open>check_menu\<close> and \<^verbatim>\<open>place_order\<close> work on two MongoDB
  collections, \<^verbatim>\<open>menu_collection\<close> and \<^verbatim>\<open>orders_collection\<close>. The collections are
  modelled as lists of documents in their natural (insertion) order, the state of the
  database as a record of both, and every tool as a function that takes the state and
  returns its result together with the state it leaves behind. An exception that leaves
  a tool is the \<open>Inl\<close> value of its result.
\<close>

subsection \<open>Strings\<close>

text \<open>
  Strings are lists of 8-bit characters. Only the ASCII letters have case here.
  \<^verbatim>\<open>str.lower\<close> is used by the source in one comparison only, against the ASCII word
  \<^verbatim>\<open>menu\<close>; no character beyond ASCII lowers to one of its four letters, so the
  comparison comes out the same.
\<close>

definition lower_char :: "char \<Rightarrow> char" where
  "lower_char c =
     (let n = (of_char c :: nat) in if 65 \<le> n \<and> n \<le> 90 then char_of (n + 32) else c)"

definition lower :: "string \<Rightarrow> string" where
  "lower s = map lower_char s"

definition newline :: char where
  "newline = CHR 0x0A"

definition quote :: char where
  "quote = CHR 0x27"

text \<open>\<^verbatim>\<open>sep.join(xs)\<close> of Python.\<close>

fun join :: "string \<Rightarrow> string list \<Rightarrow> string" where
  "join sep [] = []"
| "join sep [x] = x"
| "join sep (x # y # ys) = x @ sep @ join sep (y # ys)"

text \<open>The decimal rendering of an integer, as an f-string prints it.\<close>

definition digit_char :: "nat \<Rightarrow> char" where
  "digit_char d = char_of (48 + d)"

function str_nat :: "nat \<Rightarrow> string" where
  "str_nat n = (if n < 10 then [digit_char n] else str_nat (n div 10) @ [digit_char (n mod 10)])"
  by pat_completeness auto
termination
  by (relation "measure (\<lambda>n. n)") auto

declare str_nat.simps [simp del]

definition str_int :: "int \<Rightarrow> string" where
  "str_int i = (if i < 0 then CHR ''-'' # str_nat (nat (- i)) else str_nat (nat i))"

subsection \<open>Documents and collections\<close>

text \<open>
  A menu document is a dictionary with the keys \<^verbatim>\<open>_id\<close>, \<^verbatim>\<open>item\<close>, \<^verbatim>\<open>price\<close>,
  \<^verbatim>\<open>tags\<close> and \<^verbatim>\<open>stock\<close>. The store gives every document its \<^verbatim>\<open>_id\<close>; each of the
  other keys may be missing, which is why \<^verbatim>\<open>check_menu\<close> reads them with
  \<^verbatim>\<open>doc.get(key, default)\<close>. The values have the types of the seeded menu: a string,
  an integer, a list of strings and an integer. A stock or tags of another kind is
  modelled further down, on stored documents.
\<close>

record menu_doc =
  doc_id :: nat
  item :: "string option"
  price :: "int option"
  tags :: "string list option"
  stock :: "int option"

text \<open>
  The order dictionary built by \<^verbatim>\<open>place_order\<close>: its keys \<^verbatim>\<open>item\<close>, \<^verbatim>\<open>price\<close>,
  \<^verbatim>\<open>status\<close> and \<^verbatim>\<open>timestamp\<close>. The reading of the clock, \<^verbatim>\<open>datetime.now()\<close>, is a
  natural number handed to the tool. The \<^verbatim>\<open>_id\<close> that the store adds to an inserted
  order is read by nothing in the program and is left out.
\<close>

record order_doc =
  order_item :: string
  order_price :: int
  status :: string
  timestamp :: nat

record db =
  menu_collection :: "menu_doc list"
  orders_collection :: "order_doc list"

datatype py_error = KeyError string | TypeError | OperationFailure | WriteError

type_synonym 'a result = "py_error + 'a"

subsection \<open>The store's operations\<close>

text \<open>
  The \<^verbatim>\<open>$regex\<close> operator belongs to the store, not to this program. It is a parameter
  of the model: an engine takes the pattern and either rejects it (\<open>None\<close>: the store
  answers with \<^verbatim>\<open>OperationFailure\<close>) or gives the set of strings in which the pattern,
  with option \<^verbatim>\<open>i\<close>, finds a match.
\<close>

type_synonym regex_engine = "string \<Rightarrow> (string \<Rightarrow> bool) option"

text \<open>
  \<^verbatim>\<open>{"item": {"$regex": ...}}\<close> selects a document whose \<^verbatim>\<open>item\<close> is present and
  matches; \<^verbatim>\<open>{"tags": {"$regex": ...}}\<close> one with a matching element in its
  \<^verbatim>\<open>tags\<close> array.
\<close>

definition item_matches :: "(string \<Rightarrow> bool) \<Rightarrow> menu_doc \<Rightarrow> bool" where
  "item_matches m doc = (case item doc of None \<Rightarrow> False | Some n \<Rightarrow> m n)"

definition tags_match :: "(string \<Rightarrow> bool) \<Rightarrow> menu_doc \<Rightarrow> bool" where
  "tags_match m doc = (case tags doc of None \<Rightarrow> False | Some ts \<Rightarrow> list_ex m ts)"

text \<open>\<^verbatim>\<open>menu_collection.find(search_criteria)\<close>, lines 48 to 53 and 59.\<close>

definition find_search_criteria :: "regex_engine \<Rightarrow> string \<Rightarrow> menu_doc list \<Rightarrow> menu_doc list result" where
  "find_search_criteria rx query coll =
     (case rx query of
        None \<Rightarrow> Inl OperationFailure
      | Some m \<Rightarrow> Inr (filter (\<lambda>doc. item_matches m doc \<or> tags_match m doc) coll))"

text \<open>\<^verbatim>\<open>menu_collection.find_one({"item": {"$regex": pattern, "$options": "i"}})\<close>, line 79.\<close>

definition find_one_item :: "regex_engine \<Rightarrow> string \<Rightarrow> menu_doc list \<Rightarrow> menu_doc option result" where
  "find_one_item rx pattern coll =
     (case rx pattern of
        None \<Rightarrow> Inl OperationFailure
      | Some m \<Rightarrow> Inr (List.find (item_matches m) coll))"

text \<open>
  \<^verbatim>\<open>menu_collection.update_one({"_id": i}, {"$inc": {"stock": k}})\<close>, line 87: the first
  document with that \<^verbatim>\<open>_id\<close> has \<open>k\<close> added to its \<^verbatim>\<open>stock\<close>; \<^verbatim>\<open>$inc\<close> on a missing
  field sets it to \<open>k\<close>.
\<close>

fun update_one_inc_stock :: "nat \<Rightarrow> int \<Rightarrow> menu_doc list \<Rightarrow> menu_doc list" where
  "update_one_inc_stock i k [] = []"
| "update_one_inc_stock i k (doc # coll) =
     (if doc_id doc = i
      then doc\<lparr>stock := Some (case stock doc of None \<Rightarrow> k | Some s \<Rightarrow> s + k)\<rparr> # coll
      else doc # update_one_inc_stock i k coll)"

definition insert_one :: "order_doc \<Rightarrow> order_doc list \<Rightarrow> order_doc list" where
  "insert_one order coll = coll @ [order]"

subsection \<open>\<^verbatim>\<open>check_menu\<close>\<close>

text \<open>
  The body of the loop of lines 62 to 69, for one document. The debug print of line 45
  writes to the terminal only and is left out.
\<close>

definition response_line :: "menu_doc \<Rightarrow> string" where
  "response_line doc =
     (let item' = (case item doc of None \<Rightarrow> ''Unknown'' | Some n \<Rightarrow> n);
          price' = (case price doc of None \<Rightarrow> 0 | Some p \<Rightarrow> p);
          stock' = (case stock doc of None \<Rightarrow> 0 | Some s \<Rightarrow> s);
          tags' = (case tags doc of None \<Rightarrow> [] | Some ts \<Rightarrow> ts);
          status' = (if stock' > 0 then ''Available ($'' @ str_int price' @ '')'' else ''OUT OF STOCK'')
      in ''- '' @ item' @ '': '' @ status' @ '' (Tags: '' @ join '', '' tags' @ '')'')"

fun check_menu_loop :: "menu_doc list \<Rightarrow> string list \<Rightarrow> string list" where
  "check_menu_loop [] response = response"
| "check_menu_loop (doc # cursor) response = check_menu_loop cursor (response @ [response_line doc])"

definition check_menu :: "regex_engine \<Rightarrow> string \<Rightarrow> db \<Rightarrow> string result \<times> db" where
  "check_menu rx query d =
     (case (if query = [] \<or> lower query = ''menu''
            then Inr (menu_collection d)
            else find_search_criteria rx query (menu_collection d)) of
        Inl e \<Rightarrow> (Inl e, d)
      | Inr cursor \<Rightarrow>
          (let response = check_menu_loop cursor []
           in if response = [] then (Inr ''No matching items found on the menu.'', d)
              else (Inr (join [newline] response), d)))"

subsection \<open>\<^verbatim>\<open>place_order\<close>\<close>

text \<open>
  Line 79 reads the store; lines 81 to 97 work on the document that was read and write
  the store twice. \<^verbatim>\<open>place_order_after_lookup\<close> is lines 81 to 97: it takes the document
  of line 79 and the state of the store at the time it runs.
\<close>

definition place_order_lookup :: "regex_engine \<Rightarrow> string \<Rightarrow> db \<Rightarrow> menu_doc option result" where
  "place_order_lookup rx item_name d =
     find_one_item rx (''^'' @ item_name @ ''$'') (menu_collection d)"

definition place_order_after_lookup ::
  "string \<Rightarrow> menu_doc option \<Rightarrow> nat \<Rightarrow> db \<Rightarrow> string result \<times> db" where
  "place_order_after_lookup item_name found now d =
     (case found of
        None \<Rightarrow>
          (Inr (''Error: '' @ [quote] @ item_name @ [quote] @
                '' is not on the menu. Please check the menu first.''), d)
      | Some it \<Rightarrow>
          (case stock it of
             None \<Rightarrow> (Inl (KeyError ''stock''), d)
           | Some s \<Rightarrow>
               if s \<le> 0 then
                 (case item it of
                    None \<Rightarrow> (Inl (KeyError ''item''), d)
                  | Some n \<Rightarrow> (Inr (''Sorry, '' @ n @ '' is currently out of stock.''), d))
               else
                 (let d1 = d\<lparr>menu_collection :=
                              update_one_inc_stock (doc_id it) (- 1) (menu_collection d)\<rparr>
                  in case item it of
                       None \<Rightarrow> (Inl (KeyError ''item''), d1)
                     | Some n \<Rightarrow>
                         (case price it of
                            None \<Rightarrow> (Inl (KeyError ''price''), d1)
                          | Some p \<Rightarrow>
                              (let order = \<lparr>order_item = n, order_price = p,
                                            status = ''kitchen_preparing'', timestamp = now\<rparr>;
                                   d2 = d1\<lparr>orders_collection := insert_one order (orders_collection d1)\<rparr>
                               in (Inr (''SUCCESS: Ordered '' @ n @ ''. It will arrive in 30 mins.''), d2))))))"

definition place_order :: "regex_engine \<Rightarrow> string \<Rightarrow> nat \<Rightarrow> db \<Rightarrow> string result \<times> db" where
  "place_order rx item_name now d =
     (case place_order_lookup rx item_name d of
        Inl e \<Rightarrow> (Inl e, d)
      | Inr found \<Rightarrow> place_order_after_lookup item_name found now d)"

subsection \<open>A fragment of the store's regular expressions\<close>

text \<open>
  The store matches with a Perl-compatible engine. The fragment modelled here has the
  patterns made of ordinary ASCII characters, \<^verbatim>\<open>.\<close>, \<^verbatim>\<open>^\<close> and \<^verbatim>\<open>$\<close>, under option
  \<^verbatim>\<open>i\<close>: an ordinary character matches itself in either case, \<^verbatim>\<open>.\<close> matches any
  character but the newline, \<^verbatim>\<open>^\<close> holds at the start of the subject, and \<^verbatim>\<open>$\<close> holds
  at its end and before a newline that ends it. A pattern with a backslash, a
  quantifier, a bracket, a brace, a bar, a NUL or a character beyond ASCII is outside
  the fragment: \<open>regex_fragment\<close> gives \<open>None\<close> for it, as for a pattern that the
  store refuses. The one such pattern used below is \<^verbatim>\<open>(\<close>, which the store does
  refuse; nothing is said about any other.
\<close>

datatype rx_atom = Lit char | Dot | Caret | Dollar

definition parse_atom :: "char \<Rightarrow> rx_atom option" where
  "parse_atom c =
     (if c = CHR ''.'' then Some Dot
      else if c = CHR ''^'' then Some Caret
      else if c = CHR ''$'' then Some Dollar
      else if c \<in> set (CHR 0x5C # ''*+?()[]{}|'') \<or> (of_char c :: nat) = 0 \<or> 128 \<le> (of_char c :: nat)
      then None
      else Some (Lit c))"

fun parse_pattern :: "string \<Rightarrow> rx_atom list option" where
  "parse_pattern [] = Some []"
| "parse_pattern (c # p) =
     (case parse_atom c of
        None \<Rightarrow> None
      | Some a \<Rightarrow> (case parse_pattern p of None \<Rightarrow> None | Some as \<Rightarrow> Some (a # as)))"

text \<open>
  \<open>match_here as at_start s\<close>: the atoms match at the current position, where \<open>s\<close> is
  the rest of the subject and \<open>at_start\<close> tells whether the position is its start.
\<close>

fun match_here :: "rx_atom list \<Rightarrow> bool \<Rightarrow> string \<Rightarrow> bool" where
  "match_here [] at_start s = True"
| "match_here (Lit c # as) at_start [] = False"
| "match_here (Lit c # as) at_start (x # s) = (lower_char c = lower_char x \<and> match_here as False s)"
| "match_here (Dot # as) at_start [] = False"
| "match_here (Dot # as) at_start (x # s) = (x \<noteq> newline \<and> match_here as False s)"
| "match_here (Caret # as) at_start s = (at_start \<and> match_here as at_start s)"
| "match_here (Dollar # as) at_start s = ((s = [] \<or> s = [newline]) \<and> match_here as at_start s)"

fun search_from :: "rx_atom list \<Rightarrow> bool \<Rightarrow> string \<Rightarrow> bool" where
  "search_from as at_start [] = match_here as at_start []"
| "search_from as at_start (x # s) = (match_here as at_start (x # s) \<or> search_from as False s)"

definition regex_fragment :: regex_engine where
  "regex_fragment pattern =
     (case parse_pattern pattern of
        None \<Rightarrow> None
      | Some as \<Rightarrow> Some (\<lambda>subject. search_from as True subject))"

subsection \<open>The seeded menu\<close>

text \<open>The four documents of lines 32 to 37, numbered in the order of insertion.\<close>

definition seeded_menu :: "menu_doc list" where
  "seeded_menu =
     [\<lparr>doc_id = 0, item = Some ''Club Sandwich'', price = Some 15,
        tags = Some [''contains_gluten'', ''meat''], stock = Some 10\<rparr>,
      \<lparr>doc_id = 1, item = Some ''Vegan Buddha Bowl'', price = Some 18,
        tags = Some [''vegan'', ''gluten_free'', ''nuts''], stock = Some 5\<rparr>,
      \<lparr>doc_id = 2, item = Some ''Caesar Salad'', price = Some 12,
        tags = Some [''vegetarian'', ''contains_dairy''], stock = Some 0\<rparr>,
      \<lparr>doc_id = 3, item = Some ''Fruit Platter'', price = Some 10,
        tags = Some [''vegan'', ''gluten_free''], stock = Some 20\<rparr>]"

definition seeded_db :: db where
  "seeded_db = \<lparr>menu_collection = seeded_menu, orders_collection = []\<rparr>"

subsection \<open>The matching that the specification words\<close>

text \<open>
  Case-insensitive equality of whole strings, and case-insensitive containment of one
  string in another, written from the words of the specification and compared below
  with what the store's matching gives.
\<close>

definition spec_ci_equal :: "string \<Rightarrow> string \<Rightarrow> bool" where
  "spec_ci_equal a b = (lower a = lower b)"

definition spec_ci_substring :: "string \<Rightarrow> string \<Rightarrow> bool" where
  "spec_ci_substring q s = sublist (lower q) (lower s)"

text \<open>A text in which the store's expressions read every character as itself.\<close>

definition plain :: "string \<Rightarrow> bool" where
  "plain s = list_all (\<lambda>c. parse_atom c = Some (Lit c)) s"

subsection \<open>Sessions of tool calls\<close>

text \<open>
  The agent calls the two tools of lines 100 to 111 by name, one call after the other;
  an exception that leaves a tool is caught by the chat loop (line 204) and the session
  goes on with the store as the call left it. A call of \<^verbatim>\<open>PlaceOrder\<close> carries the
  reading of the clock at that call.
\<close>

datatype tool_call = MenuSearch string | PlaceOrder string nat

fun run_tool :: "regex_engine \<Rightarrow> tool_call \<Rightarrow> db \<Rightarrow> string result \<times> db" where
  "run_tool rx (MenuSearch query) d = check_menu rx query d"
| "run_tool rx (PlaceOrder item_name now) d = place_order rx item_name now d"

fun run_session :: "regex_engine \<Rightarrow> tool_call list \<Rightarrow> db \<Rightarrow> db" where
  "run_session rx [] d = d"
| "run_session rx (call # calls) d = run_session rx calls (snd (run_tool rx call d))"

text \<open>
  The store keeps the \<^verbatim>\<open>_id\<close> of a collection unique. \<open>stock_nonneg\<close> is the invariant
  of the specification, for the documents that have a stock.
\<close>

definition unique_ids :: "menu_doc list \<Rightarrow> bool" where
  "unique_ids coll = distinct (map doc_id coll)"

definition stock_nonneg :: "menu_doc list \<Rightarrow> bool" where
  "stock_nonneg coll = list_all (\<lambda>doc. case stock doc of None \<Rightarrow> True | Some s \<Rightarrow> 0 \<le> s) coll"

subsection \<open>Documents as the store holds them\<close>

text \<open>
  The store does not check what a document holds. The tools compute with two of the
  fields: they compare \<^verbatim>\<open>stock\<close> with 0 (lines 68 and 83) and join \<^verbatim>\<open>tags\<close> (line
  69). A stored document is modelled a second time with these two fields free to hold
  a value of another kind than the seed's: an integer, a text or null under \<^verbatim>\<open>stock\<close>,
  and under \<^verbatim>\<open>tags\<close> an array of such values or one such value in place of the
  array. \<^verbatim>\<open>item\<close> and \<^verbatim>\<open>price\<close> are only printed and copied, and stay as in
  \<open>menu_doc\<close>.
\<close>

datatype stored_value = IntVal int | TextVal string | NullVal

datatype tags_value = TagArray "stored_value list" | TagValue stored_value










text \<open>
  \<^verbatim>\<open>', '.join(tags)\<close> of line 69: the elements of a list must all be texts; a text in
  place of the list is joined character by character; \<^verbatim>\<open>None\<close> and an integer cannot
  be iterated. Every other case raises \<^verbatim>\<open>TypeError\<close>.
\<close>

fun is_text :: "stored_value \<Rightarrow> bool" where
  "is_text (TextVal t) = True"
| "is_text (IntVal i) = False"
| "is_text NullVal = False"

fun the_text :: "stored_value \<Rightarrow> string" where
  "the_text (TextVal t) = t"
| "the_text (IntVal i) = []"
| "the_text NullVal = []"

fun join_tags :: "tags_value \<Rightarrow> string result" where
  "join_tags (TagArray vs) =
     (if list_all is_text vs then Inr (join '', '' (map the_text vs)) else Inl TypeError)"
| "join_tags (TagValue (TextVal t)) = Inr (join '', '' (map (\<lambda>c. [c]) t))"
| "join_tags (TagValue (IntVal i)) = Inl TypeError"
| "join_tags (TagValue NullVal) = Inl TypeError"









section \<open>Properties\<close>

subsection \<open>The store's operations\<close>

lemma check_menu_loop_append:
  "check_menu_loop cursor response = response @ map response_line cursor"
  by (induction cursor arbitrary: response) auto

lemma update_one_inc_stock_ids:
  "map doc_id (update_one_inc_stock i k coll) = map doc_id coll"
  by (induction coll) auto

lemma map_if_absent:
  "i \<notin> doc_id ` set coll \<Longrightarrow> map (\<lambda>x. if doc_id x = i then f x else x) coll = coll"
  by (induction coll) auto

lemma update_one_inc_stock_distinct:
  "distinct (map doc_id coll) \<Longrightarrow>
   update_one_inc_stock i k coll =
     map (\<lambda>x. if doc_id x = i
               then x\<lparr>stock := Some (case stock x of None \<Rightarrow> k | Some s \<Rightarrow> s + k)\<rparr> else x) coll"
  by (induction coll) (auto simp: map_if_absent)

lemma same_id_same_doc:
  "distinct (map doc_id coll) \<Longrightarrow> x \<in> set coll \<Longrightarrow> y \<in> set coll \<Longrightarrow> doc_id x = doc_id y \<Longrightarrow> x = y"
  by (meson distinct_map inj_onD)

lemma update_one_found:
  assumes "distinct (map doc_id coll)" and "it \<in> set coll" and "stock it = Some s"
  shows "update_one_inc_stock (doc_id it) k coll =
           map (\<lambda>x. if doc_id x = doc_id it then x\<lparr>stock := Some (s + k)\<rparr> else x) coll"
proof -
  have "x \<in> set coll \<Longrightarrow> doc_id x = doc_id it \<Longrightarrow> stock x = Some s" for x
    using same_id_same_doc [OF assms(1) _ assms(2)] assms(3) by blast
  then show ?thesis
    unfolding update_one_inc_stock_distinct [OF assms(1)]
    by (intro map_cong) auto
qed

lemma find_one_item_Some:
  "find_one_item rx pattern coll = Inr (Some it) \<Longrightarrow> it \<in> set coll \<and> item it \<noteq> None"
  by (auto simp: find_one_item_def find_Some_iff item_matches_def split: option.splits)

lemma place_order_lookup_Some:
  "place_order_lookup rx item_name d = Inr (Some it) \<Longrightarrow>
   it \<in> set (menu_collection d) \<and> item it \<noteq> None"
  unfolding place_order_lookup_def by (rule find_one_item_Some)

subsection \<open>The three outcomes of \<^verbatim>\<open>place_order\<close>, by what line 79 found\<close>

lemma place_order_in_stock:
  assumes "distinct (map doc_id (menu_collection d))"
      and "place_order_lookup rx item_name d = Inr (Some it)"
      and "item it = Some n" and "price it = Some p" and "stock it = Some s" and "0 < s"
  shows "place_order rx item_name now d =
           (Inr (''SUCCESS: Ordered '' @ n @ ''. It will arrive in 30 mins.''),
            d\<lparr>menu_collection :=
                 map (\<lambda>x. if doc_id x = doc_id it then x\<lparr>stock := Some (s - 1)\<rparr> else x)
                   (menu_collection d),
               orders_collection :=
                 orders_collection d @
                   [\<lparr>order_item = n, order_price = p, status = ''kitchen_preparing'',
                     timestamp = now\<rparr>]\<rparr>)"
proof -
  have "it \<in> set (menu_collection d)"
    using assms(2) place_order_lookup_Some by blast
  then have "update_one_inc_stock (doc_id it) (- 1) (menu_collection d) =
      map (\<lambda>x. if doc_id x = doc_id it then x\<lparr>stock := Some (s - 1)\<rparr> else x) (menu_collection d)"
    using update_one_found [OF assms(1) _ assms(5), of "- 1"] by simp
  then show ?thesis
    using assms by (simp add: place_order_def place_order_after_lookup_def insert_one_def)
qed

lemma place_order_out_of_stock:
  assumes "place_order_lookup rx item_name d = Inr (Some it)"
      and "item it = Some n" and "stock it = Some s" and "s \<le> 0"
  shows "place_order rx item_name now d =
           (Inr (''Sorry, '' @ n @ '' is currently out of stock.''), d)"
  using assms by (simp add: place_order_def place_order_after_lookup_def)

lemma place_order_not_found:
  assumes "place_order_lookup rx item_name d = Inr None"
  shows "place_order rx item_name now d =
           (Inr (''Error: '' @ [quote] @ item_name @ [quote] @
                 '' is not on the menu. Please check the menu first.''), d)"
  using assms by (simp add: place_order_def place_order_after_lookup_def)

subsection \<open>A successful order\<close>

text \<open>
  Claim C2. In a store whose documents have distinct \<^verbatim>\<open>_id\<close>s, a call of
  \<^verbatim>\<open>place_order\<close> that returns a text beginning with \<^verbatim>\<open>SUCCESS:\<close> found a document of
  the menu with a name, a price and a stock above 0; afterwards the stock of that document
  is smaller by exactly 1 and every other document is as it was; exactly one order has
  been appended, which carries the name and the price that the document had at the
  call, the status \<^verbatim>\<open>kitchen_preparing\<close> (the source's word for the state of an order
  that is being prepared) and the clock reading of the call; the text is the
  confirmation for that name.
\<close>

theorem place_order_success:
  assumes "distinct (map doc_id (menu_collection d))"
      and "place_order rx item_name now d = (Inr r, d')"
      and "prefix ''SUCCESS:'' r"
  shows "\<exists>it n p s. it \<in> set (menu_collection d) \<and>
           place_order_lookup rx item_name d = Inr (Some it) \<and>
           item it = Some n \<and> price it = Some p \<and> stock it = Some s \<and> 0 < s \<and>
           menu_collection d' =
             map (\<lambda>x. if doc_id x = doc_id it then x\<lparr>stock := Some (s - 1)\<rparr> else x)
               (menu_collection d) \<and>
           orders_collection d' =
             orders_collection d @
               [\<lparr>order_item = n, order_price = p, status = ''kitchen_preparing'',
                 timestamp = now\<rparr>] \<and>
           r = ''SUCCESS: Ordered '' @ n @ ''. It will arrive in 30 mins.''"
proof (cases "place_order_lookup rx item_name d")
  case (Inl e)
  then show ?thesis using assms(2) by (simp add: place_order_def)
next
  case (Inr found)
  show ?thesis
  proof (cases found)
    case None
    then show ?thesis
      using place_order_not_found [of rx item_name d now] Inr assms(2,3) by auto
  next
    case (Some it)
    have mem: "it \<in> set (menu_collection d)"
      using Inr Some place_order_lookup_Some by blast
    obtain n where n: "item it = Some n"
      using Inr Some place_order_lookup_Some by blast
    show ?thesis
    proof (cases "stock it")
      case None
      then show ?thesis
        using Inr Some assms(2) by (simp add: place_order_def place_order_after_lookup_def)
    next
      case s: (Some s)
      show ?thesis
      proof (cases "s \<le> 0")
        case True
        then show ?thesis
          using place_order_out_of_stock [of rx item_name d it n s now] Inr Some n s assms(2,3)
          by auto
      next
        case False
        show ?thesis
        proof (cases "price it")
          case None
          then show ?thesis
            using Inr Some n s False assms(2)
            by (simp add: place_order_def place_order_after_lookup_def)
        next
          case p: (Some p)
          have "place_order rx item_name now d =
           (Inr (''SUCCESS: Ordered '' @ n @ ''. It will arrive in 30 mins.''),
            d\<lparr>menu_collection :=
                 map (\<lambda>x. if doc_id x = doc_id it then x\<lparr>stock := Some (s - 1)\<rparr> else x)
                   (menu_collection d),
               orders_collection :=
                 orders_collection d @
                   [\<lparr>order_item = n, order_price = p, status = ''kitchen_preparing'',
                     timestamp = now\<rparr>]\<rparr>)"
            using place_order_in_stock [OF assms(1) _ n p s] Inr Some False by simp
          with assms(2) have "r = ''SUCCESS: Ordered '' @ n @ ''. It will arrive in 30 mins.''"
            and "d' = d\<lparr>menu_collection :=
                 map (\<lambda>x. if doc_id x = doc_id it then x\<lparr>stock := Some (s - 1)\<rparr> else x)
                   (menu_collection d),
               orders_collection :=
                 orders_collection d @
                   [\<lparr>order_item = n, order_price = p, status = ''kitchen_preparing'',
                     timestamp = now\<rparr>]\<rparr>"
            by simp_all
          then show ?thesis
            using mem Inr Some n p s False
            by (intro exI [of _ it] exI [of _ n] exI [of _ p] exI [of _ s]) simp
        qed
      qed
    qed
  qed
qed

theorem place_order_success_witness:
  "distinct (map doc_id (menu_collection seeded_db)) \<and>
   prefix ''SUCCESS:'' ''SUCCESS: Ordered Fruit Platter. It will arrive in 30 mins.'' \<and>
   (\<exists>d'. place_order regex_fragment ''fruit platter'' 7 seeded_db =
            (Inr ''SUCCESS: Ordered Fruit Platter. It will arrive in 30 mins.'', d') \<and>
          (\<exists>it n p s. it \<in> set (menu_collection seeded_db) \<and>
             place_order_lookup regex_fragment ''fruit platter'' seeded_db = Inr (Some it) \<and>
             item it = Some n \<and> price it = Some p \<and> stock it = Some s \<and> 0 < s \<and>
             menu_collection d' =
               map (\<lambda>x. if doc_id x = doc_id it then x\<lparr>stock := Some (s - 1)\<rparr> else x)
                 (menu_collection seeded_db) \<and>
             orders_collection d' =
               orders_collection seeded_db @
                 [\<lparr>order_item = n, order_price = p, status = ''kitchen_preparing'',
                   timestamp = 7\<rparr>] \<and>
             ''SUCCESS: Ordered Fruit Platter. It will arrive in 30 mins.'' =
               ''SUCCESS: Ordered '' @ n @ ''. It will arrive in 30 mins.''))"
proof -
  have ids: "distinct (map doc_id (menu_collection seeded_db))"
    by (simp add: seeded_db_def seeded_menu_def)
  have pre: "prefix ''SUCCESS:'' ''SUCCESS: Ordered Fruit Platter. It will arrive in 30 mins.''"
    by simp
  have "fst (place_order regex_fragment ''fruit platter'' 7 seeded_db) =
          Inr ''SUCCESS: Ordered Fruit Platter. It will arrive in 30 mins.''"
    by code_simp
  then obtain d' where run: "place_order regex_fragment ''fruit platter'' 7 seeded_db =
      (Inr ''SUCCESS: Ordered Fruit Platter. It will arrive in 30 mins.'', d')"
    by (metis prod.collapse)
  show ?thesis
    using ids pre run place_order_success [OF ids run pre] by blast
qed

subsection \<open>The whole menu\<close>

text \<open>
  Claim C7. For the empty query and for a query that is the word \<^verbatim>\<open>menu\<close> in any
  case, \<^verbatim>\<open>check_menu\<close> asks the store for every document, whatever the regex engine:
  the result has one line for each document of the menu, in the order of the
  collection (and is the no-match sentence when the menu has no document), so it is
  the same whenever the store is the same; the store is left as it was.
\<close>

theorem check_menu_everything:
  assumes "query = [] \<or> lower query = ''menu''"
  shows "check_menu rx query d =
           (Inr (if menu_collection d = [] then ''No matching items found on the menu.''
                 else join [newline] (map response_line (menu_collection d))), d)"
  using assms by (auto simp: check_menu_def check_menu_loop_append Let_def)

theorem check_menu_everything_witness:
  "(''MENU'' = [] \<or> lower ''MENU'' = ''menu'') \<and>
   check_menu regex_fragment ''MENU'' seeded_db =
     (Inr (join [newline]
        [''- Club Sandwich: Available ($15) (Tags: contains_gluten, meat)'',
         ''- Vegan Buddha Bowl: Available ($18) (Tags: vegan, gluten_free, nuts)'',
         ''- Caesar Salad: OUT OF STOCK (Tags: vegetarian, contains_dairy)'',
         ''- Fruit Platter: Available ($10) (Tags: vegan, gluten_free)'']), seeded_db)"
proof -
  have q: "''MENU'' = [] \<or> lower ''MENU'' = ''menu''"
    by code_simp
  have lines: "map response_line (menu_collection seeded_db) =
        [''- Club Sandwich: Available ($15) (Tags: contains_gluten, meat)'',
         ''- Vegan Buddha Bowl: Available ($18) (Tags: vegan, gluten_free, nuts)'',
         ''- Caesar Salad: OUT OF STOCK (Tags: vegetarian, contains_dairy)'',
         ''- Fruit Platter: Available ($10) (Tags: vegan, gluten_free)'']"
    by code_simp
  have ne: "menu_collection seeded_db \<noteq> []"
    by (simp add: seeded_db_def seeded_menu_def)
  show ?thesis
    using q check_menu_everything [OF q, of regex_fragment seeded_db] lines ne by simp
qed

subsection \<open>The lines of a search result\<close>






subsection \<open>The stock never goes below zero in a session\<close>

lemma check_menu_read_only: "snd (check_menu rx query d) = d"
  by (simp add: check_menu_def Let_def split: sum.splits)

lemma place_order_menu_cases:
  assumes "distinct (map doc_id (menu_collection d))"
  shows "menu_collection (snd (place_order rx item_name now d)) = menu_collection d \<or>
         (\<exists>it s. it \<in> set (menu_collection d) \<and> stock it = Some s \<and> 0 < s \<and>
            menu_collection (snd (place_order rx item_name now d)) =
              map (\<lambda>x. if doc_id x = doc_id it then x\<lparr>stock := Some (s - 1)\<rparr> else x)
                (menu_collection d))"
proof (cases "place_order_lookup rx item_name d")
  case (Inl e)
  then show ?thesis by (simp add: place_order_def)
next
  case (Inr found)
  show ?thesis
  proof (cases found)
    case None
    then show ?thesis using Inr by (simp add: place_order_def place_order_after_lookup_def)
  next
    case (Some it)
    have mem: "it \<in> set (menu_collection d)"
      using Inr Some place_order_lookup_Some by blast
    show ?thesis
    proof (cases "stock it")
      case None
      then show ?thesis
        using Inr Some by (simp add: place_order_def place_order_after_lookup_def)
    next
      case s: (Some s)
      show ?thesis
      proof (cases "s \<le> 0")
        case True
        then show ?thesis
          using Inr Some s
          by (simp add: place_order_def place_order_after_lookup_def split: option.splits)
      next
        case False
        have upd: "update_one_inc_stock (doc_id it) (- 1) (menu_collection d) =
            map (\<lambda>x. if doc_id x = doc_id it then x\<lparr>stock := Some (s - 1)\<rparr> else x)
              (menu_collection d)"
          using update_one_found [OF assms mem s, of "- 1"] by simp
        have "menu_collection (snd (place_order rx item_name now d)) =
            update_one_inc_stock (doc_id it) (- 1) (menu_collection d)"
          using Inr Some s False
          by (simp add: place_order_def place_order_after_lookup_def Let_def split: option.splits)
        then show ?thesis
          using upd mem s False by auto
      qed
    qed
  qed
qed

lemma stock_nonneg_decrement:
  assumes "stock_nonneg coll" and "0 < s"
  shows "stock_nonneg (map (\<lambda>x. if doc_id x = i then x\<lparr>stock := Some (s - 1)\<rparr> else x) coll)"
  using assms by (induction coll) (auto simp: stock_nonneg_def)

lemma unique_ids_decrement:
  "unique_ids (map (\<lambda>x. if doc_id x = i then x\<lparr>stock := v\<rparr> else x) coll) = unique_ids coll"
proof -
  have "map doc_id (map (\<lambda>x. if doc_id x = i then x\<lparr>stock := v\<rparr> else x) coll) = map doc_id coll"
    by (induction coll) auto
  then show ?thesis unfolding unique_ids_def by (rule arg_cong)
qed

lemma run_tool_preserves:
  assumes "unique_ids (menu_collection d)" and "stock_nonneg (menu_collection d)"
  shows "unique_ids (menu_collection (snd (run_tool rx call d))) \<and>
         stock_nonneg (menu_collection (snd (run_tool rx call d)))"
proof (cases call)
  case (MenuSearch query)
  then show ?thesis using assms by (simp add: check_menu_read_only)
next
  case (PlaceOrder item_name now)
  have "distinct (map doc_id (menu_collection d))"
    using assms(1) by (simp add: unique_ids_def)
  from place_order_menu_cases [OF this, of rx item_name now]
  show ?thesis
    using assms PlaceOrder
    by (auto simp: stock_nonneg_decrement unique_ids_decrement)
qed

lemma run_session_preserves:
  "unique_ids (menu_collection d) \<Longrightarrow> stock_nonneg (menu_collection d) \<Longrightarrow>
   unique_ids (menu_collection (run_session rx calls d)) \<and>
   stock_nonneg (menu_collection (run_session rx calls d))"
proof (induction calls arbitrary: d)
  case Nil
  then show ?case by simp
next
  case (Cons call calls)
  then show ?case using run_tool_preserves [of d rx call] by simp
qed

text \<open>
  Claim C9. From a store whose documents have distinct \<^verbatim>\<open>_id\<close>s and no stock below
  0, every session of \<^verbatim>\<open>MenuSearch\<close> and \<^verbatim>\<open>PlaceOrder\<close> calls, run one call after
  the other with any regex engine, ends in a store with no stock below 0. The stock is
  written by nothing but the decrement of \<^verbatim>\<open>place_order\<close>: \<^verbatim>\<open>check_menu\<close> leaves
  the whole store as it was, and \<^verbatim>\<open>place_order\<close> leaves the menu as it was or takes
  exactly 1 from the stock of one document whose stock was above 0.
\<close>

theorem stock_never_negative:
  assumes "unique_ids (menu_collection d)" and "stock_nonneg (menu_collection d)"
  shows "stock_nonneg (menu_collection (run_session rx calls d)) \<and>
         snd (check_menu rx query d) = d \<and>
         (menu_collection (snd (place_order rx item_name now d)) = menu_collection d \<or>
          (\<exists>it s. it \<in> set (menu_collection d) \<and> stock it = Some s \<and> 0 < s \<and>
             menu_collection (snd (place_order rx item_name now d)) =
               map (\<lambda>x. if doc_id x = doc_id it then x\<lparr>stock := Some (s - 1)\<rparr> else x)
                 (menu_collection d)))"
  using assms run_session_preserves [of d rx calls] check_menu_read_only [of rx query d]
    place_order_menu_cases [of d rx item_name now]
  by (simp add: unique_ids_def)

theorem stock_never_negative_witness:
  "unique_ids (menu_collection seeded_db) \<and> stock_nonneg (menu_collection seeded_db) \<and>
   stock_nonneg (menu_collection (run_session regex_fragment
      [PlaceOrder ''fruit platter'' 1, MenuSearch ''vegan'', PlaceOrder ''Caesar Salad'' 2]
      seeded_db)) \<and>
   snd (check_menu regex_fragment ''vegan'' seeded_db) = seeded_db \<and>
   (menu_collection (snd (place_order regex_fragment ''fruit platter'' 1 seeded_db)) =
      menu_collection seeded_db \<or>
    (\<exists>it s. it \<in> set (menu_collection seeded_db) \<and> stock it = Some s \<and> 0 < s \<and>
       menu_collection (snd (place_order regex_fragment ''fruit platter'' 1 seeded_db)) =
         map (\<lambda>x. if doc_id x = doc_id it then x\<lparr>stock := Some (s - 1)\<rparr> else x)
           (menu_collection seeded_db)))"
proof -
  have ids: "unique_ids (menu_collection seeded_db)"
    by (simp add: unique_ids_def seeded_db_def seeded_menu_def)
  have nonneg: "stock_nonneg (menu_collection seeded_db)"
    by (simp add: stock_nonneg_def seeded_db_def seeded_menu_def)
  show ?thesis
    using ids nonneg
      stock_never_negative [OF ids nonneg, of regex_fragment
        "[PlaceOrder ''fruit platter'' 1, MenuSearch ''vegan'', PlaceOrder ''Caesar Salad'' 2]"
        "''vegan''" "''fruit platter''" 1]
    by blast
qed

subsection \<open>When the tools on \<open>menu_doc\<close> return a text\<close>



subsection \<open>Stored documents that are typed like the seed\<close>

text \<open>
  On a menu whose stored documents are typed like the seed, the tools on stored documents
  do what the tools on \<open>menu_doc\<close> do.
\<close>

lemma typed_tags_join:
  "list_all is_text vs \<Longrightarrow> join_tags (TagArray vs) = Inr (join '', '' (map the_text vs))"
  by simp




















subsection \<open>What the tools return, and when they raise\<close>





subsection \<open>Two calls of \<^verbatim>\<open>place_order\<close> that overlap\<close>

text \<open>
  Claim C1. The check of the stock (lines 79 and 83) and the decrement (line 87) are
  two operations on the store, not one. Two calls for the last \<^verbatim>\<open>Fruit Platter\<close>
  (stock 1) that both run line 79 before either runs line 87 read the same document;
  the first then runs lines 81 to 97 on the store as it is, the second on the store the
  first left. Both return \<^verbatim>\<open>SUCCESS\<close>, the stock ends at \<open>- 1\<close> and the ledger has two
  orders, where the claim has one success, one out-of-stock answer, stock 0 and one order.
\<close>

theorem place_order_race:
  "place_order_lookup regex_fragment ''Fruit Platter''
     \<lparr>menu_collection = [\<lparr>doc_id = 3, item = Some ''Fruit Platter'', price = Some 10,
                            tags = Some [''vegan'', ''gluten_free''], stock = Some 1\<rparr>],
      orders_collection = []\<rparr> =
     Inr (Some \<lparr>doc_id = 3, item = Some ''Fruit Platter'', price = Some 10,
                 tags = Some [''vegan'', ''gluten_free''], stock = Some 1\<rparr>) \<and>
   place_order_after_lookup ''Fruit Platter''
     (Some \<lparr>doc_id = 3, item = Some ''Fruit Platter'', price = Some 10,
             tags = Some [''vegan'', ''gluten_free''], stock = Some 1\<rparr>) 1
     \<lparr>menu_collection = [\<lparr>doc_id = 3, item = Some ''Fruit Platter'', price = Some 10,
                            tags = Some [''vegan'', ''gluten_free''], stock = Some 1\<rparr>],
      orders_collection = []\<rparr> =
     (Inr ''SUCCESS: Ordered Fruit Platter. It will arrive in 30 mins.'',
      \<lparr>menu_collection = [\<lparr>doc_id = 3, item = Some ''Fruit Platter'', price = Some 10,
                            tags = Some [''vegan'', ''gluten_free''], stock = Some 0\<rparr>],
       orders_collection = [\<lparr>order_item = ''Fruit Platter'', order_price = 10,
                               status = ''kitchen_preparing'', timestamp = 1\<rparr>]\<rparr>) \<and>
   place_order_after_lookup ''Fruit Platter''
     (Some \<lparr>doc_id = 3, item = Some ''Fruit Platter'', price = Some 10,
             tags = Some [''vegan'', ''gluten_free''], stock = Some 1\<rparr>) 2
     \<lparr>menu_collection = [\<lparr>doc_id = 3, item = Some ''Fruit Platter'', price = Some 10,
                            tags = Some [''vegan'', ''gluten_free''], stock = Some 0\<rparr>],
       orders_collection = [\<lparr>order_item = ''Fruit Platter'', order_price = 10,
                               status = ''kitchen_preparing'', timestamp = 1\<rparr>]\<rparr> =
     (Inr ''SUCCESS: Ordered Fruit Platter. It will arrive in 30 mins.'',
      \<lparr>menu_collection = [\<lparr>doc_id = 3, item = Some ''Fruit Platter'', price = Some 10,
                            tags = Some [''vegan'', ''gluten_free''], stock = Some (- 1)\<rparr>],
       orders_collection = [\<lparr>order_item = ''Fruit Platter'', order_price = 10,
                               status = ''kitchen_preparing'', timestamp = 1\<rparr>,
                            \<lparr>order_item = ''Fruit Platter'', order_price = 10,
                               status = ''kitchen_preparing'', timestamp = 2\<rparr>]\<rparr>)"
  by code_simp

subsection \<open>The pattern of line 79 is not the name\<close>

text \<open>
  Line 79 puts the name into the pattern as it is, so a character of the name that the
  store's expressions read as an operator is not matched as itself. The comment of
  line 78 calls the lookup an exact match.
\<close>

text \<open>
  Claim C3. The menu has one document, \<^verbatim>\<open>$1 Coffee\<close>, with stock 0. The name
  \<^verbatim>\<open>$1 coffee\<close> equals it but for case, and the claim has \<^verbatim>\<open>place_order\<close> answer
  that the item is out of stock. The pattern \<^verbatim>\<open>^$1 coffee$\<close> matches no string, and
  \<^verbatim>\<open>place_order\<close> answers that the item is not on the menu.
\<close>

theorem place_order_dollar_name_out_of_stock:
  "spec_ci_equal ''$1 coffee'' ''$1 Coffee'' \<and>
   place_order regex_fragment ''$1 coffee'' 1
     \<lparr>menu_collection = [\<lparr>doc_id = 0, item = Some ''$1 Coffee'', price = Some 1,
                            tags = Some [''drink''], stock = Some 0\<rparr>],
      orders_collection = []\<rparr> =
   (Inr (''Error: '' @ [quote] @ ''$1 coffee'' @ [quote] @
         '' is not on the menu. Please check the menu first.''),
     \<lparr>menu_collection = [\<lparr>doc_id = 0, item = Some ''$1 Coffee'', price = Some 1,
                            tags = Some [''drink''], stock = Some 0\<rparr>],
      orders_collection = []\<rparr>)"
  by code_simp

text \<open>
  Claim C4. No name of the seeded menu equals \<^verbatim>\<open>Vegan.Buddha.Bowl\<close>, with or without
  case, and the claim has \<^verbatim>\<open>place_order\<close> answer that the item is not on the menu and
  write nothing. The dots of the pattern match the spaces of \<^verbatim>\<open>Vegan Buddha Bowl\<close>:
  \<^verbatim>\<open>place_order\<close> returns \<^verbatim>\<open>SUCCESS\<close>, takes 1 from that stock and appends an order.
\<close>

theorem place_order_wildcard_name_succeeds:
  "filter (\<lambda>doc. case item doc of None \<Rightarrow> False | Some n \<Rightarrow> spec_ci_equal ''Vegan.Buddha.Bowl'' n)
     (menu_collection seeded_db) = [] \<and>
   place_order regex_fragment ''Vegan.Buddha.Bowl'' 1 seeded_db =
   (Inr ''SUCCESS: Ordered Vegan Buddha Bowl. It will arrive in 30 mins.'',
    \<lparr>menu_collection =
       [\<lparr>doc_id = 0, item = Some ''Club Sandwich'', price = Some 15,
          tags = Some [''contains_gluten'', ''meat''], stock = Some 10\<rparr>,
        \<lparr>doc_id = 1, item = Some ''Vegan Buddha Bowl'', price = Some 18,
          tags = Some [''vegan'', ''gluten_free'', ''nuts''], stock = Some 4\<rparr>,
        \<lparr>doc_id = 2, item = Some ''Caesar Salad'', price = Some 12,
          tags = Some [''vegetarian'', ''contains_dairy''], stock = Some 0\<rparr>,
        \<lparr>doc_id = 3, item = Some ''Fruit Platter'', price = Some 10,
          tags = Some [''vegan'', ''gluten_free''], stock = Some 20\<rparr>],
     orders_collection =
       [\<lparr>order_item = ''Vegan Buddha Bowl'', order_price = 18,
          status = ''kitchen_preparing'', timestamp = 1\<rparr>]\<rparr>)"
  by code_simp

text \<open>
  Claim C5. The menu has \<^verbatim>\<open>Fruit Platter\<close> and \<^verbatim>\<open>$5 Special\<close> (stock 3). The call
  \<^verbatim>\<open>place_order("$5 Special")\<close> gives the name as it is stored, and the lookup does
  not find it: the lookup is not an exact whole-string match for a name with such a
  character.
\<close>

theorem place_order_exact_name_not_found:
  "spec_ci_equal ''$5 Special'' ''$5 Special'' \<and>
   place_order regex_fragment ''$5 Special'' 1
     \<lparr>menu_collection = [\<lparr>doc_id = 0, item = Some ''Fruit Platter'', price = Some 10,
                            tags = Some [''vegan'', ''gluten_free''], stock = Some 20\<rparr>,
                          \<lparr>doc_id = 1, item = Some ''$5 Special'', price = Some 5,
                            tags = Some [''meat''], stock = Some 3\<rparr>],
      orders_collection = []\<rparr> =
   (Inr (''Error: '' @ [quote] @ ''$5 Special'' @ [quote] @
         '' is not on the menu. Please check the menu first.''),
     \<lparr>menu_collection = [\<lparr>doc_id = 0, item = Some ''Fruit Platter'', price = Some 10,
                            tags = Some [''vegan'', ''gluten_free''], stock = Some 20\<rparr>,
                          \<lparr>doc_id = 1, item = Some ''$5 Special'', price = Some 5,
                            tags = Some [''meat''], stock = Some 3\<rparr>],
      orders_collection = []\<rparr>)"
  by code_simp

text \<open>
  Claim C6. No name and no tag of the seeded menu contains a dot, so a search by
  substring for \<^verbatim>\<open>.\<close> selects nothing. Line 50 gives the query to the store as a
  pattern, where the dot matches any character: \<^verbatim>\<open>check_menu(".")\<close> returns all four
  items. The docstring of \<^verbatim>\<open>check_menu\<close> calls the search a simple text match.
\<close>

theorem check_menu_dot_returns_everything:
  "filter (\<lambda>doc. (case item doc of None \<Rightarrow> False | Some n \<Rightarrow> spec_ci_substring ''.'' n) \<or>
                 (case tags doc of None \<Rightarrow> False | Some ts \<Rightarrow> list_ex (spec_ci_substring ''.'') ts))
     (menu_collection seeded_db) = [] \<and>
   check_menu regex_fragment ''.'' seeded_db =
     (Inr (join [newline]
        [''- Club Sandwich: Available ($15) (Tags: contains_gluten, meat)'',
         ''- Vegan Buddha Bowl: Available ($18) (Tags: vegan, gluten_free, nuts)'',
         ''- Caesar Salad: OUT OF STOCK (Tags: vegetarian, contains_dairy)'',
         ''- Fruit Platter: Available ($10) (Tags: vegan, gluten_free)'']), seeded_db)"
  by code_simp

subsection \<open>The scenarios of the specification\<close>

lemma place_order_scenario_fruit_platter:
  "place_order regex_fragment ''fruit platter'' 1
     \<lparr>menu_collection = [\<lparr>doc_id = 0, item = Some ''Fruit Platter'', price = Some 10,
                            tags = Some [''vegan'', ''gluten_free''], stock = Some 20\<rparr>],
      orders_collection = []\<rparr> =
   (Inr ''SUCCESS: Ordered Fruit Platter. It will arrive in 30 mins.'',
     \<lparr>menu_collection = [\<lparr>doc_id = 0, item = Some ''Fruit Platter'', price = Some 10,
                            tags = Some [''vegan'', ''gluten_free''], stock = Some 19\<rparr>],
      orders_collection = [\<lparr>order_item = ''Fruit Platter'', order_price = 10,
                              status = ''kitchen_preparing'', timestamp = 1\<rparr>]\<rparr>)"
  by code_simp

lemma place_order_scenario_caesar_salad:
  "place_order regex_fragment ''Caesar Salad'' 1 seeded_db =
     (Inr ''Sorry, Caesar Salad is currently out of stock.'', seeded_db)"
  by code_simp

lemma check_menu_scenario_vegan:
  "check_menu regex_fragment ''vegan'' seeded_db =
     (Inr (join [newline]
        [''- Vegan Buddha Bowl: Available ($18) (Tags: vegan, gluten_free, nuts)'',
         ''- Fruit Platter: Available ($10) (Tags: vegan, gluten_free)'']), seeded_db)"
  by code_simp

subsection \<open>A text without operators is matched as the specification words it\<close>

text \<open>
  For a query in which every character stands for itself, the pattern of lines 50 and 51
  finds a match in exactly the strings that contain the query, case ignored. For such
  a name, the pattern of line 79 matches exactly the strings that equal the name, case
  ignored, and those that equal it followed by one newline.
\<close>

lemma parse_pattern_append:
  "parse_pattern (p @ q) =
     (case parse_pattern p of
        None \<Rightarrow> None
      | Some as \<Rightarrow> (case parse_pattern q of None \<Rightarrow> None | Some bs \<Rightarrow> Some (as @ bs)))"
  by (induction p) (auto split: option.splits)

lemma parse_pattern_plain: "plain q \<Longrightarrow> parse_pattern q = Some (map Lit q)"
  by (induction q) (auto simp: plain_def)

lemma match_here_literals:
  "match_here (map Lit q) at_start s = prefix (lower q) (lower s)"
proof (induction q arbitrary: s at_start)
  case Nil
  then show ?case by (simp add: lower_def)
next
  case (Cons c q)
  then show ?case by (cases s) (auto simp: lower_def)
qed

lemma search_from_literals:
  "search_from (map Lit q) at_start s = sublist (lower q) (lower s)"
proof (induction s arbitrary: at_start)
  case Nil
  then show ?case by (cases q) (simp_all add: lower_def)
next
  case (Cons x s)
  have "search_from (map Lit q) at_start (x # s) =
          (prefix (lower q) (lower (x # s)) \<or> sublist (lower q) (lower s))"
    using Cons.IH [of False] match_here_literals [of q at_start "x # s"] by simp
  then show ?case by (simp add: lower_def sublist_Cons_right)
qed

lemma regex_fragment_plain:
  assumes "plain q"
  shows "\<exists>m. regex_fragment q = Some m \<and> (\<forall>s. m s = spec_ci_substring q s)"
  using assms
  by (simp add: regex_fragment_def parse_pattern_plain search_from_literals spec_ci_substring_def)

lemma match_here_literals_dollar:
  "match_here (map Lit n @ [Dollar]) at_start s =
     (spec_ci_equal n s \<or> (\<exists>t. s = t @ [newline] \<and> spec_ci_equal n t))"
proof (induction n arbitrary: s at_start)
  case Nil
  then show ?case by (auto simp: spec_ci_equal_def lower_def)
next
  case (Cons c n)
  show ?case
  proof (cases s)
    case Nil
    then show ?thesis by (simp add: spec_ci_equal_def lower_def)
  next
    case (Cons x s')
    have "(\<exists>t. x # s' = t @ [newline] \<and> spec_ci_equal (c # n) t) =
          (lower_char c = lower_char x \<and> (\<exists>t'. s' = t' @ [newline] \<and> spec_ci_equal n t'))"
      by (auto simp: spec_ci_equal_def lower_def Cons_eq_append_conv)
    then show ?thesis
      using Cons Cons.IH [of False s'] by (auto simp: spec_ci_equal_def lower_def)
  qed
qed

lemma search_from_caret_later: "search_from (Caret # as) False s = False"
  by (induction s) auto

lemma search_from_caret: "search_from (Caret # as) True s = match_here as True s"
  by (cases s) (auto simp: search_from_caret_later)

lemma regex_fragment_anchored_plain:
  assumes "plain n"
  shows "\<exists>m. regex_fragment (''^'' @ n @ ''$'') = Some m \<and>
           (\<forall>s. m s = (spec_ci_equal n s \<or> (\<exists>t. s = t @ [newline] \<and> spec_ci_equal n t)))"
proof -
  have "parse_pattern (''^'' @ n @ ''$'') = Some (Caret # map Lit n @ [Dollar])"
    using assms by (simp add: parse_pattern_append parse_pattern_plain parse_atom_def)
  then show ?thesis
    by (simp add: regex_fragment_def search_from_caret match_here_literals_dollar)
qed

lemma find_search_criteria_plain:
  assumes "plain query"
  shows "find_search_criteria regex_fragment query coll =
           Inr (filter (\<lambda>doc.
                  (case item doc of None \<Rightarrow> False | Some n \<Rightarrow> spec_ci_substring query n) \<or>
                  (case tags doc of None \<Rightarrow> False
                   | Some ts \<Rightarrow> list_ex (spec_ci_substring query) ts)) coll)"
proof -
  obtain m where m: "regex_fragment query = Some m" "\<And>s. m s = spec_ci_substring query s"
    using regex_fragment_plain [OF assms] by blast
  then have "m = spec_ci_substring query"
    by (intro ext) simp
  then show ?thesis
    using m(1) by (simp add: find_search_criteria_def item_matches_def tags_match_def)
qed

lemma place_order_lookup_plain:
  assumes "plain item_name"
  shows "place_order_lookup regex_fragment item_name d =
           Inr (List.find (\<lambda>doc. case item doc of
                                   None \<Rightarrow> False
                                 | Some n \<Rightarrow> spec_ci_equal item_name n \<or>
                                     (\<exists>t. n = t @ [newline] \<and> spec_ci_equal item_name t))
                  (menu_collection d))"
proof -
  obtain m where m: "regex_fragment (''^'' @ item_name @ ''$'') = Some m"
      "\<And>s. m s = (spec_ci_equal item_name s \<or>
                    (\<exists>t. s = t @ [newline] \<and> spec_ci_equal item_name t))"
    using regex_fragment_anchored_plain [OF assms] by blast
  have "item_matches m =
          (\<lambda>doc. case item doc of
                    None \<Rightarrow> False
                  | Some n \<Rightarrow> spec_ci_equal item_name n \<or>
                      (\<exists>t. n = t @ [newline] \<and> spec_ci_equal item_name t))"
    by (intro ext) (simp add: item_matches_def m(2) split: option.splits)
  then show ?thesis
    using m(1) by (simp add: place_order_lookup_def find_one_item_def)
qed

end
